theory Spec2Isabelle
  imports Complex_Main "HOL-Library.Multiset"
begin

section \<open>Roman numeral codec (utils.ts)\<close>

text \<open>
  Enchantment levels and the decoded values of numerals are integer-valued JavaScript
  numbers. They are modelled as \<open>int\<close>; where the source can produce \<open>NaN\<close> or
  \<open>undefined\<close> in their place the type is \<open>int option\<close> and \<open>None\<close> stands for it.
\<close>

subsection \<open>convertToRomanNumerals\<close>

text \<open>The object literal \<open>romanNumerals\<close> of \<open>convertToRomanNumerals\<close>, in key order.\<close>

definition romanNumerals :: "(int \<times> string) list" where
  "romanNumerals = [(1, ''I''), (4, ''IV''), (5, ''V''), (9, ''IX''), (10, ''X'')]"

text \<open>\<open>Object.keys(romanNumerals).map(key => parseInt(key, 10)).sort((a, b) => b - a)\<close>\<close>

definition keys :: "int list" where
  "keys = rev (sort (map fst romanNumerals))"

text \<open>
  \<open>romanNumerals[key]\<close>; a key that is not in the table would read \<open>undefined\<close>, which
  \<open>+=\<close> on a string appends as the text \<open>undefined\<close>.
\<close>

definition numeralOf :: "int \<Rightarrow> string" where
  "numeralOf key = (case map_of romanNumerals key of Some s \<Rightarrow> s | None \<Rightarrow> ''undefined'')"

text \<open>
  The inner loop \<open>while (remaining >= key) { result += romanNumerals[key]; remaining -= key; }\<close>
  on the pair \<open>(result, remaining)\<close>. Every key of the table is positive; the test
  \<open>0 < key\<close> only makes the function total on the keys the table does not have.
\<close>

function appendWhile :: "int \<Rightarrow> string \<times> int \<Rightarrow> string \<times> int" where
  "appendWhile key (result, remaining) =
     (if 0 < key \<and> key \<le> remaining
      then appendWhile key (result @ numeralOf key, remaining - key)
      else (result, remaining))"
  by pat_completeness auto
termination
  by (relation "measure (\<lambda>(key, result, remaining). nat remaining)") auto

text \<open>
  \<open>num.toString()\<close> on an integer-valued number, after ECMAScript
  (\<open>Number::toString\<close>, radix 10). An integer stands for the double nearest to it
  (\<open>roundDouble\<close>: 53 significant bits, ties to even; the largest exponent of a double
  is not modelled). The digits printed are the shortest decimal that rounds to that
  double: \<open>shortest x z\<close> is the multiple of the largest power of ten, at most
  \<open>10 ^ z\<close>, that does, the closest one when two do. A value of at most 21 digits is
  printed by its digits, a longer one in exponent notation.
\<close>

definition digitChar :: "nat \<Rightarrow> char" where
  "digitChar d = ''0123456789'' ! d"

fun decimal :: "nat \<Rightarrow> string" where
  "decimal n = (if n < 10 then [digitChar n] else decimal (n div 10) @ [digitChar (n mod 10)])"

fun bitLength :: "nat \<Rightarrow> nat" where
  "bitLength n = (if n = 0 then 0 else Suc (bitLength (n div 2)))"

definition roundDouble :: "nat \<Rightarrow> nat" where
  "roundDouble m =
     (if bitLength m \<le> 53 then m
      else (let e = bitLength m - 53;
                q = m div 2 ^ e;
                r = m mod 2 ^ e;
                half = 2 ^ (e - 1)
            in (if half < r \<or> (r = half \<and> odd q) then q + 1 else q) * 2 ^ e))"

fun shortest :: "nat \<Rightarrow> nat \<Rightarrow> nat" where
  "shortest x z =
     (if z = 0 then x
      else (let lo = (x div 10 ^ z) * 10 ^ z;
                hi = lo + 10 ^ z
            in if roundDouble lo = x \<and> roundDouble hi = x
               then (if x - lo < hi - x then lo
                     else if hi - x < x - lo then hi
                     else if even (x div 10 ^ z) then lo else hi)
               else if roundDouble lo = x then lo
               else if roundDouble hi = x then hi
               else shortest x (z - 1)))"

definition stripZeros :: "string \<Rightarrow> string" where
  "stripZeros ds = rev (dropWhile (\<lambda>c. c = CHR ''0'') (rev ds))"

definition Number_toString :: "nat \<Rightarrow> string" where
  "Number_toString x =
     (if x = 0 then ''0''
      else (let v = shortest x (length (decimal x));
                n = length (decimal v)
            in if n \<le> 21 then decimal v
               else (case stripZeros (decimal v) of
                       [] \<Rightarrow> []
                     | [d] \<Rightarrow> d # ''e+'' @ decimal (n - 1)
                     | d # ds \<Rightarrow> d # CHR ''.'' # ds @ ''e+'' @ decimal (n - 1))))"

definition toString :: "int \<Rightarrow> string" where
  "toString num =
     (if num < 0 then CHR ''-'' # Number_toString (roundDouble (nat (- num)))
      else Number_toString (roundDouble (nat num)))"

definition convertToRomanNumerals :: "int \<Rightarrow> string" where
  "convertToRomanNumerals num =
     (if num > 10 then toString num
      else fst (foldl (\<lambda>state key. appendWhile key state) ('''', num) keys))"

subsection \<open>romanToNumber\<close>

text \<open>
  \<open>romanNumerals[roman[i]]\<close> of \<open>romanToNumber\<close>: the value of a symbol, \<open>None\<close>
  (\<open>undefined\<close>) for a character that is not a key of the table.
\<close>

definition symbolValue :: "char \<Rightarrow> int option" where
  "symbolValue c =
     map_of [(CHR ''I'', 1), (CHR ''V'', 5), (CHR ''X'', 10), (CHR ''L'', 50),
             (CHR ''C'', 100), (CHR ''D'', 500), (CHR ''M'', 1000)] c"

text \<open>
  \<open><\<close>, \<open>+=\<close> and \<open>-=\<close> on numbers that may be \<open>NaN\<close> or \<open>undefined\<close>: a comparison
  with one of them is false, arithmetic with one of them is \<open>NaN\<close>.
\<close>

definition lessThan_num :: "int option \<Rightarrow> int option \<Rightarrow> bool" where
  "lessThan_num a b = (case (a, b) of (Some x, Some y) \<Rightarrow> x < y | _ \<Rightarrow> False)"

definition plus_num :: "int option \<Rightarrow> int option \<Rightarrow> int option" where
  "plus_num a b = (case (a, b) of (Some x, Some y) \<Rightarrow> Some (x + y) | _ \<Rightarrow> None)"

definition minus_num :: "int option \<Rightarrow> int option \<Rightarrow> int option" where
  "minus_num a b = (case (a, b) of (Some x, Some y) \<Rightarrow> Some (x - y) | _ \<Rightarrow> None)"

text \<open>One iteration of the loop of \<open>romanToNumber\<close> on the state \<open>(num, prevValue)\<close>.\<close>

fun romanStep :: "int option \<times> int option \<Rightarrow> char \<Rightarrow> int option \<times> int option" where
  "romanStep (num, prevValue) c =
     (let v = symbolValue c
      in (if lessThan_num v prevValue then minus_num num v else plus_num num v, v))"

text \<open>The loop runs from the last character to the first, starting from \<open>num = 0, prevValue = 0\<close>.\<close>

definition romanToNumber :: "string \<Rightarrow> int option" where
  "romanToNumber roman = fst (foldl romanStep (Some 0, Some 0) (rev roman))"

section \<open>Form field registry (utils.ts, class FormFieldManager)\<close>

text \<open>The private array \<open>fields\<close> of the class is the field \<open>fields_m\<close>.\<close>

record FormFieldManager =
  fields_m :: "string list"

text \<open>A fresh manager: \<open>private fields: string[] = []\<close>.\<close>

definition newFormFieldManager :: FormFieldManager where
  "newFormFieldManager = \<lparr>fields_m = []\<rparr>"

text \<open>\<open>addField\<close> pushes the name and returns \<open>this.fields.length - 1\<close>, with the new state.\<close>

definition addField :: "FormFieldManager \<Rightarrow> string \<Rightarrow> FormFieldManager \<times> int" where
  "addField m name =
     (let m' = m\<lparr>fields_m := fields_m m @ [name]\<rparr>
      in (m', int (length (fields_m m')) - 1))"

text \<open>\<open>Array.prototype.indexOf\<close>: the first index holding the element, \<open>-1\<close> when there is none.\<close>

fun indexOfFrom :: "int \<Rightarrow> 'a list \<Rightarrow> 'a \<Rightarrow> int" where
  "indexOfFrom i [] x = - 1"
| "indexOfFrom i (y # ys) x = (if y = x then i else indexOfFrom (i + 1) ys x)"

definition indexOf :: "'a list \<Rightarrow> 'a \<Rightarrow> int" where
  "indexOf xs x = indexOfFrom 0 xs x"

definition getFieldIndex :: "FormFieldManager \<Rightarrow> string \<Rightarrow> int" where
  "getFieldIndex m name = indexOf (fields_m m) name"

text \<open>
  The part of \<open>ui.ModalFormResponse\<close> that \<open>getValue\<close> reads: \<open>formValues\<close>, an array or
  \<open>undefined\<close>. An array is truthy even when it is empty.
\<close>

record 'v ModalFormResponse =
  formValues :: "'v list option"

definition getValue :: "FormFieldManager \<Rightarrow> 'v ModalFormResponse \<Rightarrow> string \<Rightarrow> 'v \<Rightarrow> 'v" where
  "getValue m response name defaultValue =
     (let index = getFieldIndex m name
      in case formValues response of
           None \<Rightarrow> defaultValue
         | Some vs \<Rightarrow>
             if index \<noteq> - 1 \<and> index < int (length vs) then vs ! nat index else defaultValue)"

text \<open>Registering a sequence of names one after the other, collecting what \<open>addField\<close> returned.\<close>

fun addFields :: "FormFieldManager \<Rightarrow> string list \<Rightarrow> FormFieldManager \<times> int list" where
  "addFields m [] = (m, [])"
| "addFields m (name # names) =
     (case addField m name of
        (m', i) \<Rightarrow> (case addFields m' names of (m'', is) \<Rightarrow> (m'', i # is)))"

text \<open>The manager after registering the names on a fresh one.\<close>

definition registryOf :: "string list \<Rightarrow> FormFieldManager" where
  "registryOf names = fst (addFields newFormFieldManager names)"

section \<open>Numbers and the spatial vector (utils.ts, class Vector3)\<close>

text \<open>
  A JavaScript number that need not be an integer: \<open>NaN\<close>, the two infinities, or a
  finite value. Finite values are reals: rounding to the nearest double, overflow and the
  sign of a zero are not modelled, so the model agrees with the program wherever the
  program's arithmetic is exact.
\<close>

datatype number = NaN | PosInf | NegInf | Fin real

text \<open>\<open>isNaN\<close>, \<open>===\<close> and \<open>!==\<close> on numbers (\<open>NaN\<close> is not equal to itself), and truthiness.\<close>

definition isNaN :: "number \<Rightarrow> bool" where
  "isNaN a = (a = NaN)"

definition strictEq :: "number \<Rightarrow> number \<Rightarrow> bool" where
  "strictEq a b = (a \<noteq> NaN \<and> b \<noteq> NaN \<and> a = b)"

definition strictNeq :: "number \<Rightarrow> number \<Rightarrow> bool" where
  "strictNeq a b = (\<not> strictEq a b)"

definition truthy :: "number \<Rightarrow> bool" where
  "truthy a = (a \<noteq> NaN \<and> a \<noteq> Fin 0)"

text \<open>The arithmetic of numbers: \<open>+\<close>, unary \<open>-\<close>, \<open>*\<close>, \<open>/\<close>, \<open>** 2\<close> and \<open>Math.sqrt\<close>.\<close>

fun num_add :: "number \<Rightarrow> number \<Rightarrow> number" where
  "num_add NaN b = NaN"
| "num_add a NaN = NaN"
| "num_add PosInf NegInf = NaN"
| "num_add NegInf PosInf = NaN"
| "num_add PosInf b = PosInf"
| "num_add NegInf b = NegInf"
| "num_add (Fin a) PosInf = PosInf"
| "num_add (Fin a) NegInf = NegInf"
| "num_add (Fin a) (Fin b) = Fin (a + b)"

fun num_neg :: "number \<Rightarrow> number" where
  "num_neg NaN = NaN"
| "num_neg PosInf = NegInf"
| "num_neg NegInf = PosInf"
| "num_neg (Fin a) = Fin (- a)"

text \<open>The sign of a number that is not \<open>NaN\<close>: \<open>1\<close>, \<open>0\<close> or \<open>- 1\<close>.\<close>

fun signOf :: "number \<Rightarrow> real" where
  "signOf NaN = 0"
| "signOf PosInf = 1"
| "signOf NegInf = - 1"
| "signOf (Fin a) = sgn a"

definition infinityOfSign :: "real \<Rightarrow> number" where
  "infinityOfSign s = (if s = 0 then NaN else if 0 < s then PosInf else NegInf)"

fun num_mul :: "number \<Rightarrow> number \<Rightarrow> number" where
  "num_mul NaN b = NaN"
| "num_mul a NaN = NaN"
| "num_mul (Fin a) (Fin b) = Fin (a * b)"
| "num_mul a b = infinityOfSign (signOf a * signOf b)"

text \<open>
  Division. A zero divisor is never passed by the code modelled here (\<open>divide\<close> tests the
  scalar first, \<open>degreesToRadians\<close> divides by 180); its result in JavaScript depends on
  the sign of the zero and is given as \<open>NaN\<close> here.
\<close>

fun num_div :: "number \<Rightarrow> number \<Rightarrow> number" where
  "num_div NaN b = NaN"
| "num_div a NaN = NaN"
| "num_div (Fin a) (Fin b) = (if b = 0 then NaN else Fin (a / b))"
| "num_div (Fin a) b = Fin 0"
| "num_div a (Fin b) = infinityOfSign (signOf a * sgn b)"
| "num_div a b = NaN"

fun num_square :: "number \<Rightarrow> number" where
  "num_square NaN = NaN"
| "num_square (Fin a) = Fin (a ^ 2)"
| "num_square a = PosInf"

fun Math_sqrt :: "number \<Rightarrow> number" where
  "Math_sqrt (Fin a) = (if a < 0 then NaN else Fin (sqrt a))"
| "Math_sqrt PosInf = PosInf"
| "Math_sqrt a = NaN"

fun Math_sin :: "number \<Rightarrow> number" where
  "Math_sin (Fin a) = Fin (sin a)"
| "Math_sin a = NaN"

fun Math_cos :: "number \<Rightarrow> number" where
  "Math_cos (Fin a) = Fin (cos a)"
| "Math_cos a = NaN"

definition Math_PI :: number where
  "Math_PI = Fin pi"

text \<open>A thrown value: an \<open>Error\<close> with its message, or anything else.\<close>

datatype thrown = Error string | NonError

text \<open>The class \<open>Vector3\<close>; the constructor is \<open>new Vector3(x, y, z)\<close>.\<close>

datatype Vector3 = Vector3 (x3: number) (y3: number) (z3: number)

definition add :: "Vector3 \<Rightarrow> Vector3 \<Rightarrow> Vector3" where
  "add this other =
     Vector3 (num_add (x3 this) (x3 other)) (num_add (y3 this) (y3 other))
       (num_add (z3 this) (z3 other))"

definition divide :: "Vector3 \<Rightarrow> number \<Rightarrow> thrown + Vector3" where
  "divide this scalar =
     (if strictNeq scalar (Fin 0)
      then Inr (Vector3 (num_div (x3 this) scalar) (num_div (y3 this) scalar)
                  (num_div (z3 this) scalar))
      else Inl (Error ''Cannot divide by zero''))"

definition magnitude :: "Vector3 \<Rightarrow> number" where
  "magnitude this =
     Math_sqrt (num_add (num_add (num_square (x3 this)) (num_square (y3 this)))
       (num_square (z3 this)))"

definition normalize :: "Vector3 \<Rightarrow> thrown + Vector3" where
  "normalize this =
     (let mag = magnitude this
      in if strictNeq mag (Fin 0) then divide this mag
         else Inl (Error ''Cannot normalize a zero vector''))"

definition equals :: "Vector3 \<Rightarrow> Vector3 \<Rightarrow> bool" where
  "equals this other =
     (strictEq (x3 this) (x3 other) \<and> strictEq (y3 this) (y3 other) \<and>
      strictEq (z3 this) (z3 other))"

definition degreesToRadians :: "number \<Rightarrow> number" where
  "degreesToRadians degrees = num_div (num_mul degrees Math_PI) (Fin 180)"

section \<open>Strings and the coordinate parser (utils.ts)\<close>

text \<open>
  Strings are lists of characters with codes below 256. White space is what
  \<open>String.prototype.trim\<close> removes and \<open>\s\<close> matches in that range: tab, line feed,
  vertical tab, form feed, carriage return, space and no-break space.
\<close>

definition whiteSpaceChars :: "char list" where
  "whiteSpaceChars = [CHR 0x09, CHR 0x0A, CHR 0x0B, CHR 0x0C, CHR 0x0D, CHR 0x20, CHR 0xA0]"

definition isWhiteSpace :: "char \<Rightarrow> bool" where
  "isWhiteSpace c = (c \<in> set whiteSpaceChars)"

definition isDigit :: "char \<Rightarrow> bool" where
  "isDigit c = (c \<in> set ''0123456789'')"

definition trim :: "string \<Rightarrow> string" where
  "trim s = rev (dropWhile isWhiteSpace (rev (dropWhile isWhiteSpace s)))"

definition startsWith :: "string \<Rightarrow> string \<Rightarrow> bool" where
  "startsWith s p = (take (length p) s = p)"

text \<open>\<open>s.slice(1)\<close>\<close>

definition slice1 :: "string \<Rightarrow> string" where
  "slice1 s = drop 1 s"

text \<open>
  \<open>s.split(/\s+/)\<close>: the pieces between maximal runs of white space. \<open>cur\<close> is the piece
  being read and \<open>inSep\<close> tells that the last character read was white space.
\<close>

fun splitSpaces :: "string \<Rightarrow> bool \<Rightarrow> string \<Rightarrow> string list" where
  "splitSpaces cur inSep [] = [cur]"
| "splitSpaces cur inSep (c # cs) =
     (if isWhiteSpace c
      then (if inSep then splitSpaces cur True cs else cur # splitSpaces [] True cs)
      else splitSpaces (cur @ [c]) False cs)"

definition split_whitespace :: "string \<Rightarrow> string list" where
  "split_whitespace s = splitSpaces [] False s"

text \<open>
  \<open>parseFloat\<close>, after ECMAScript: leading white space is skipped, then the longest prefix
  that is a decimal literal is read (an optional sign, then \<open>Infinity\<close> or digits with an
  optional fraction and an optional exponent); when there is no such prefix the result is
  \<open>NaN\<close>. What follows the literal is ignored.
\<close>

definition digitValue :: "char \<Rightarrow> nat" where
  "digitValue c = of_char c - 48"

definition digitsValue :: "string \<Rightarrow> nat" where
  "digitsValue ds = foldl (\<lambda>a c. 10 * a + digitValue c) 0 ds"

text \<open>An optional sign: its value and the rest of the string.\<close>

fun readSign :: "string \<Rightarrow> int \<times> string" where
  "readSign (c # cs) =
     (if c = CHR ''-'' then (- 1, cs) else if c = CHR ''+'' then (1, cs) else (1, c # cs))"
| "readSign [] = (1, [])"

text \<open>The exponent part: \<open>e\<close> or \<open>E\<close>, an optional sign and at least one digit; 0 when absent.\<close>

fun readExponent :: "string \<Rightarrow> int" where
  "readExponent (c # cs) =
     (if c = CHR ''e'' \<or> c = CHR ''E''
      then (case readSign cs of
              (s, r) \<Rightarrow>
                if takeWhile isDigit r = [] then 0
                else s * int (digitsValue (takeWhile isDigit r)))
      else 0)"
| "readExponent [] = 0"

definition scale10 :: "real \<Rightarrow> int \<Rightarrow> real" where
  "scale10 m e = (if 0 \<le> e then m * 10 ^ nat e else m / 10 ^ nat (- e))"

definition parseFloat :: "string \<Rightarrow> number" where
  "parseFloat s =
     (case readSign (dropWhile isWhiteSpace s) of
        (sign, u) \<Rightarrow>
          if startsWith u ''Infinity'' then (if sign < 0 then NegInf else PosInf)
          else
            (let ip = takeWhile isDigit u;
                 r1 = dropWhile isDigit u;
                 fp = (case r1 of c # r \<Rightarrow> if c = CHR ''.'' then takeWhile isDigit r else []
                       | [] \<Rightarrow> []);
                 r2 = (case r1 of c # r \<Rightarrow> if c = CHR ''.'' then dropWhile isDigit r else r1
                       | [] \<Rightarrow> [])
             in if ip = [] \<and> fp = [] then NaN
                else Fin (scale10
                       (of_int sign *
                          (of_nat (digitsValue ip) + of_nat (digitsValue fp) / 10 ^ length fp))
                       (readExponent r2))))"

text \<open>
  The player as the parser reads it: the property \<open>location\<close> and the method
  \<open>getRotation()\<close> (pitch \<open>x\<close>, yaw \<open>y\<close>). Both are calls into the host and may throw,
  which is why \<open>parseCoords\<close> wraps them in \<open>try\<close>.
\<close>

datatype Vector2 = Vector2 (x2: number) (y2: number)

record Player =
  location :: "thrown + Vector3"
  getRotation :: "thrown + Vector2"

datatype axis = AxisX | AxisY | AxisZ

text \<open>A value of type \<open>number | string\<close>.\<close>

datatype coordinate = Num number | Str string

definition isStr :: "coordinate \<Rightarrow> bool" where
  "isStr c = (case c of Str s \<Rightarrow> True | Num n \<Rightarrow> False)"

definition parseCoordinateWithDirection ::
    "Player \<Rightarrow> string \<Rightarrow> number \<Rightarrow> axis \<Rightarrow> thrown + coordinate" where
  "parseCoordinateWithDirection player input base axis =
     (if startsWith input ''~''
      then (let relativeValue = parseFloat (slice1 input)
            in Inr (Num (if isNaN relativeValue then base else num_add base relativeValue)))
      else if startsWith input ''^''
      then (let localValue =
                  (if truthy (parseFloat (slice1 input)) then parseFloat (slice1 input)
                   else Fin 0)
            in case getRotation player of
                 Inl e \<Rightarrow> Inl e
               | Inr rotation \<Rightarrow>
                   (let yawRadians = degreesToRadians (y2 rotation)
                    in case axis of
                         AxisX \<Rightarrow>
                           Inr (Num (num_add base
                                  (num_mul (num_neg (Math_sin yawRadians)) localValue)))
                       | AxisZ \<Rightarrow>
                           Inr (Num (num_add base (num_mul (Math_cos yawRadians) localValue)))
                       | AxisY \<Rightarrow> Inr (Num (num_add base localValue))))
      else (let absoluteValue = parseFloat input
            in Inr (if isNaN absoluteValue then Str ''Error: Invalid coordinate value.''
                    else Num absoluteValue)))"

text \<open>The \<open>catch\<close> clause of \<open>parseCoords\<close>.\<close>

definition catchMessage :: "thrown \<Rightarrow> string" where
  "catchMessage e =
     (case e of Error message \<Rightarrow> ''Error: '' @ message
      | NonError \<Rightarrow> ''Error: An unknown error occurred.'')"

text \<open>The numeric value of a coordinate that is not a string.\<close>

definition numberOf :: "coordinate \<Rightarrow> number" where
  "numberOf c = (case c of Num n \<Rightarrow> n | Str s \<Rightarrow> NaN)"

text \<open>\<open>parseCoords\<close> returns \<open>Vector3 | string\<close>: \<open>Inl\<close> is the error string.\<close>

definition parseCoords :: "Player \<Rightarrow> string \<Rightarrow> string + Vector3" where
  "parseCoords player input =
     (case split_whitespace (trim input) of
        [c0, c1, c2] \<Rightarrow>
          (case location player of
             Inl e \<Rightarrow> Inl (catchMessage e)
           | Inr playerLocation \<Rightarrow>
               (let isRelative = list_ex (\<lambda>component. startsWith component ''~'') [c0, c1, c2];
                    isLocal = list_ex (\<lambda>component. startsWith component ''^'') [c0, c1, c2]
                in if isRelative \<and> isLocal
                   then Inl ''Error: Cannot mix relative (~) and local (^) coordinates.''
                   else
                     (case parseCoordinateWithDirection player c0 (x3 playerLocation) AxisX of
                        Inl e \<Rightarrow> Inl (catchMessage e)
                      | Inr x \<Rightarrow>
                     (case parseCoordinateWithDirection player c1 (y3 playerLocation) AxisY of
                        Inl e \<Rightarrow> Inl (catchMessage e)
                      | Inr y \<Rightarrow>
                     (case parseCoordinateWithDirection player c2 (z3 playerLocation) AxisZ of
                        Inl e \<Rightarrow> Inl (catchMessage e)
                      | Inr z \<Rightarrow>
                          if isStr x \<or> isStr y \<or> isStr z
                          then Inl ''Error: One or more coordinates could not be parsed.''
                          else Inr (Vector3 (numberOf x) (numberOf y) (numberOf z)))))))
      | _ \<Rightarrow> Inl ''Error: Invalid coordinate input. Expected three components (x, y, z).'')"

section \<open>The enchantment string parser (utils.ts)\<close>

text \<open>
  The host's \<open>EnchantmentType\<close> (its \<open>id\<close> and \<open>maxLevel\<close>) and \<open>Enchantment\<close> (a type and
  a level). The level of a descriptor built by \<open>parseEnchantments\<close> is what
  \<open>romanToNumber\<close> returned, so it may be \<open>NaN\<close> (\<open>None\<close>).
\<close>

record EnchantmentType =
  id_t :: string
  maxLevel :: int

record Enchantment =
  etype :: EnchantmentType
  level :: "int option"

text \<open>\<open>>\<close> on numbers that may be \<open>NaN\<close>.\<close>

definition greaterThan_num :: "int option \<Rightarrow> int option \<Rightarrow> bool" where
  "greaterThan_num a b = (case (a, b) of (Some x, Some y) \<Rightarrow> x > y | _ \<Rightarrow> False)"

text \<open>The components of an item, as the host hands them out.\<close>

record ItemCooldownComponent =
  cooldownCategory :: string
  cooldownTicks :: number

record ItemDurabilityComponent =
  maxDurability :: number
  damage :: number

record ItemFoodComponent =
  canAlwaysEat :: bool
  nutrition :: number
  saturationModifier :: number
  usingConvertsTo :: string

record ItemEnchantableComponent =
  getEnchantments :: "Enchantment list"

datatype ItemLockMode = LockNone | LockInventory | LockSlot

text \<open>
  The value of a dynamic property: \<open>undefined\<close>, a boolean, a number, a string or a
  vector. A vector-valued property is taken to be an instance of \<open>Vector3\<close>, as the
  \<open>instanceof\<close> test of \<open>compareDynamicProperties\<close> expects.
\<close>

datatype DynamicValue =
  DUndefined | DBoolean bool | DNumber number | DString string | DVector3 Vector3

text \<open>
  An \<open>ItemStack\<close> as the add-on reads it. \<open>getComponent\<close> of a component type is the
  matching field (\<open>None\<close> when the item has no such component), and the dynamic properties
  are listed in the order of \<open>getDynamicPropertyIds()\<close>.
\<close>

record ItemStack =
  typeId :: string
  nameTag :: "string option"
  amount :: number
  isStackable :: bool
  getTags :: "string list"
  getLore :: "string list"
  getCanDestroy :: "string list"
  getCanPlaceOn :: "string list"
  keepOnDeath :: bool
  lockMode :: ItemLockMode
  cooldown :: "ItemCooldownComponent option"
  durability :: "ItemDurabilityComponent option"
  food :: "ItemFoodComponent option"
  enchantable :: "ItemEnchantableComponent option"
  dynamicProperties :: "(string \<times> DynamicValue) list"

text \<open>\<open>s.split(',')\<close>\<close>

fun splitComma :: "string \<Rightarrow> string \<Rightarrow> string list" where
  "splitComma cur [] = [cur]"
| "splitComma cur (c # cs) =
     (if c = CHR '','' then cur # splitComma [] cs else splitComma (cur @ [c]) cs)"

definition split_comma :: "string \<Rightarrow> string list" where
  "split_comma s = splitComma [] s"

text \<open>The class \<open>\w\<close> of the pattern: letters, digits and the underscore.\<close>

definition isWordChar :: "char \<Rightarrow> bool" where
  "isWordChar c =
     (c \<in> set ''ABCDEFGHIJKLMNOPQRSTUVWXYZabcdefghijklmnopqrstuvwxyz0123456789_'')"

text \<open>
  \<open>/^([\w\s]+?)(?:\s+(\w+))?$/.exec(entry)\<close>. The name group is lazy: it takes one
  character of \<open>[\w\s]\<close> at a time and stops as soon as the rest matches
  \<open>(?:\s+(\w+))?$\<close>. The rest matches with a level when it is white space followed by
  word characters up to the end, and without a level when it is empty.
\<close>

definition matchRest :: "string \<Rightarrow> string option option" where
  "matchRest r =
     (let w = dropWhile isWhiteSpace r
      in if takeWhile isWhiteSpace r \<noteq> [] \<and> w \<noteq> [] \<and> list_all isWordChar w
         then Some (Some w)
         else if r = [] then Some None else None)"

fun execFrom :: "string \<Rightarrow> string \<Rightarrow> (string \<times> string option) option" where
  "execFrom name [] = None"
| "execFrom name (c # cs) =
     (if isWordChar c \<or> isWhiteSpace c
      then (case matchRest cs of
              Some levelStr \<Rightarrow> Some (name @ [c], levelStr)
            | None \<Rightarrow> execFrom (name @ [c]) cs)
      else None)"

definition enchantmentPattern_exec :: "string \<Rightarrow> (string \<times> string option) option" where
  "enchantmentPattern_exec entry = execFrom [] entry"

text \<open>
  \<open>toLowerCase\<close> on the characters the pattern lets through, and \<open>replace(/ /g, '_')\<close>.
\<close>

definition toLowerCase :: "string \<Rightarrow> string" where
  "toLowerCase s =
     map (\<lambda>c. case map_of (zip ''ABCDEFGHIJKLMNOPQRSTUVWXYZ'' ''abcdefghijklmnopqrstuvwxyz'') c of
               Some l \<Rightarrow> l | None \<Rightarrow> c) s"

definition replaceSpaces :: "string \<Rightarrow> string" where
  "replaceSpaces s = map (\<lambda>c. if c = CHR '' '' then CHR ''_'' else c) s"

text \<open>
  The body of the loop of \<open>parseEnchantments\<close> on one entry: \<open>Inl\<close> is the error the body
  returns with, \<open>Inr\<close> the descriptor it pushes. The host's registry
  \<open>EnchantmentTypes.get\<close> and the method \<open>canAddEnchantment\<close> of the item's enchantable
  component are parameters.
\<close>

definition parseEntry ::
    "(string \<Rightarrow> EnchantmentType option) \<Rightarrow> (ItemEnchantableComponent \<Rightarrow> Enchantment \<Rightarrow> bool) \<Rightarrow>
     ItemStack \<Rightarrow> ItemEnchantableComponent \<Rightarrow> string \<Rightarrow> string + Enchantment" where
  "parseEntry EnchantmentTypes_get canAddEnchantment item enchantableComponent entry =
     (case enchantmentPattern_exec entry of
        None \<Rightarrow> Inl (''Invalid format: '' @ entry)
      | Some (name, levelStr) \<Rightarrow>
          (let level = (case levelStr of
                          Some l \<Rightarrow> if l \<noteq> [] then romanToNumber l else Some 1
                        | None \<Rightarrow> Some 1);
               formattedName = replaceSpaces (toLowerCase (trim name))
           in case EnchantmentTypes_get formattedName of
                None \<Rightarrow> Inl (''Invalid enchantment identifier: '' @ name)
              | Some type \<Rightarrow>
                  if greaterThan_num level (Some (maxLevel type))
                  then Inl (''The enchantment level for '' @ name @
                            '' is too high. Maximum allowed is '' @
                            convertToRomanNumerals (maxLevel type) @ ''.'')
                  else
                    (let enchantment = \<lparr>etype = type, level = level\<rparr>
                     in if \<not> canAddEnchantment enchantableComponent enchantment
                        then Inl (''The '' @ name @ '' enchantment is not compatible with '' @
                                  typeId item @ ''.'')
                        else Inr enchantment)))"

text \<open>\<open>enchantmentsStr.split(',').map(entry => entry.trim())\<close>\<close>

definition enchantmentEntries :: "string \<Rightarrow> string list" where
  "enchantmentEntries enchantmentsStr = map trim (split_comma enchantmentsStr)"

text \<open>The object \<open>{enchantments?, error?}\<close> that \<open>parseEnchantments\<close> returns.\<close>

record ParseResult =
  enchantments :: "Enchantment list option"
  error :: "string option"

text \<open>The loop over the entries; \<open>acc\<close> is the array \<open>enchantments\<close> built so far.\<close>

fun parseEntries ::
    "(string \<Rightarrow> EnchantmentType option) \<Rightarrow> (ItemEnchantableComponent \<Rightarrow> Enchantment \<Rightarrow> bool) \<Rightarrow>
     ItemStack \<Rightarrow> ItemEnchantableComponent \<Rightarrow> string list \<Rightarrow> Enchantment list \<Rightarrow> ParseResult" where
  "parseEntries EnchantmentTypes_get canAddEnchantment item enchantableComponent [] acc =
     \<lparr>enchantments = Some acc, error = None\<rparr>"
| "parseEntries EnchantmentTypes_get canAddEnchantment item enchantableComponent (entry # entries) acc =
     (case parseEntry EnchantmentTypes_get canAddEnchantment item enchantableComponent entry of
        Inl message \<Rightarrow> \<lparr>enchantments = None, error = Some message\<rparr>
      | Inr enchantment \<Rightarrow>
          parseEntries EnchantmentTypes_get canAddEnchantment item enchantableComponent entries
            (acc @ [enchantment]))"

definition parseEnchantments ::
    "(string \<Rightarrow> EnchantmentType option) \<Rightarrow> (ItemEnchantableComponent \<Rightarrow> Enchantment \<Rightarrow> bool) \<Rightarrow>
     ItemStack \<Rightarrow> string \<Rightarrow> ParseResult" where
  "parseEnchantments EnchantmentTypes_get canAddEnchantment item enchantmentsStr =
     (case enchantable item of
        None \<Rightarrow> \<lparr>enchantments = None, error = Some ''This item cannot be enchanted.''\<rparr>
      | Some enchantableComponent \<Rightarrow>
          parseEntries EnchantmentTypes_get canAddEnchantment item enchantableComponent
            (enchantmentEntries enchantmentsStr) [])"

section \<open>The item equality comparator (isSameItem and its helpers)\<close>

text \<open>
  \<open>arr1.length !== arr2.length || !arr1.every((v) => arr2.includes(v))\<close>, the test that
  \<open>isSameItem\<close> applies to the tags, the lore and the two block lists.
\<close>

definition differsByContainment :: "string list \<Rightarrow> string list \<Rightarrow> bool" where
  "differsByContainment arr1 arr2 =
     (length arr1 \<noteq> length arr2 \<or> \<not> list_all (\<lambda>v. v \<in> set arr2) arr1)"

text \<open>
  \<open>compareComponent\<close>: both items have the component and the comparison function accepts
  the pair, or neither has it.
\<close>

definition compareComponent :: "'c option \<Rightarrow> 'c option \<Rightarrow> ('c \<Rightarrow> 'c \<Rightarrow> bool) \<Rightarrow> bool" where
  "compareComponent comp1 comp2 compareFunction =
     (let hasComponent1 = (comp1 \<noteq> None); hasComponent2 = (comp2 \<noteq> None)
      in if hasComponent1 \<noteq> hasComponent2 then False
         else case (comp1, comp2) of
                (Some c1, Some c2) \<Rightarrow> compareFunction c1 c2
              | _ \<Rightarrow> True)"

definition compareCooldownComponents ::
    "ItemCooldownComponent \<Rightarrow> ItemCooldownComponent \<Rightarrow> bool" where
  "compareCooldownComponents comp1 comp2 =
     (cooldownCategory comp1 = cooldownCategory comp2 \<and>
      strictEq (cooldownTicks comp1) (cooldownTicks comp2))"

definition compareDurabilityComponents ::
    "ItemDurabilityComponent \<Rightarrow> ItemDurabilityComponent \<Rightarrow> bool" where
  "compareDurabilityComponents comp1 comp2 =
     (strictEq (maxDurability comp1) (maxDurability comp2) \<and>
      strictEq (damage comp1) (damage comp2))"

definition compareFoodComponents :: "ItemFoodComponent \<Rightarrow> ItemFoodComponent \<Rightarrow> bool" where
  "compareFoodComponents comp1 comp2 =
     (canAlwaysEat comp1 = canAlwaysEat comp2 \<and>
      strictEq (nutrition comp1) (nutrition comp2) \<and>
      strictEq (saturationModifier comp1) (saturationModifier comp2) \<and>
      usingConvertsTo comp1 = usingConvertsTo comp2)"

text \<open>
  \<open>!==\<close> on two enchantments at the same index: the types differ or the levels differ.
  The host hands out one object per enchantment type, so the identity of a type is its
  value; a level that is \<open>NaN\<close> differs from every level.
\<close>

definition enchantmentDiffers :: "Enchantment \<Rightarrow> Enchantment \<Rightarrow> bool" where
  "enchantmentDiffers e1 e2 =
     (etype e1 \<noteq> etype e2 \<or> level e1 = None \<or> level e2 = None \<or> level e1 \<noteq> level e2)"

text \<open>The lengths are equal when the loop runs, so the pairs of \<open>zip\<close> are its iterations.\<close>

definition compareEnchantableComponents ::
    "ItemEnchantableComponent \<Rightarrow> ItemEnchantableComponent \<Rightarrow> bool" where
  "compareEnchantableComponents comp1 comp2 =
     (let enchantments1 = getEnchantments comp1; enchantments2 = getEnchantments comp2
      in if length enchantments1 \<noteq> length enchantments2 then False
         else list_all (\<lambda>(e1, e2). \<not> enchantmentDiffers e1 e2) (zip enchantments1 enchantments2))"

definition compareComponents :: "ItemStack \<Rightarrow> ItemStack \<Rightarrow> bool" where
  "compareComponents item1 item2 =
     (if \<not> compareComponent (cooldown item1) (cooldown item2) compareCooldownComponents
      then False
      else if \<not> compareComponent (durability item1) (durability item2) compareDurabilityComponents
      then False
      else if \<not> compareComponent (food item1) (food item2) compareFoodComponents
      then False
      else if \<not> compareComponent (enchantable item1) (enchantable item2)
                  compareEnchantableComponents
      then False
      else True)"

text \<open>\<open>getDynamicPropertyIds()\<close>, \<open>getDynamicProperty(id)\<close> and \<open>typeof\<close>.\<close>

definition getDynamicPropertyIds :: "ItemStack \<Rightarrow> string list" where
  "getDynamicPropertyIds item = map fst (dynamicProperties item)"

definition getDynamicProperty :: "ItemStack \<Rightarrow> string \<Rightarrow> DynamicValue" where
  "getDynamicProperty item property =
     (case map_of (dynamicProperties item) property of Some v \<Rightarrow> v | None \<Rightarrow> DUndefined)"

fun typeOf :: "DynamicValue \<Rightarrow> string" where
  "typeOf DUndefined = ''undefined''"
| "typeOf (DBoolean b) = ''boolean''"
| "typeOf (DNumber n) = ''number''"
| "typeOf (DString s) = ''string''"
| "typeOf (DVector3 v) = ''object''"

text \<open>\<open>arraysEqual\<close>: equal length and the same element at every index.\<close>

definition arraysEqual :: "string list \<Rightarrow> string list \<Rightarrow> bool" where
  "arraysEqual arr1 arr2 =
     (if length arr1 \<noteq> length arr2 then False
      else list_all (\<lambda>(item, other). item = other) (zip arr1 arr2))"

text \<open>
  The body of the loop of \<open>compareDynamicProperties\<close> on one pair of values, \<open>True\<close> when
  the loop goes on: the \<open>typeof\<close> of the two agree, and two vectors are \<open>equals\<close>, any
  other two values \<open>===\<close>.
\<close>

definition samePropertyValue :: "DynamicValue \<Rightarrow> DynamicValue \<Rightarrow> bool" where
  "samePropertyValue prop1 prop2 =
     (if typeOf prop1 \<noteq> typeOf prop2 then False
      else case (prop1, prop2) of
             (DVector3 v1, DVector3 v2) \<Rightarrow> equals v1 v2
           | (DNumber a, DNumber b) \<Rightarrow> strictEq a b
           | _ \<Rightarrow> prop1 = prop2)"

definition compareDynamicProperties :: "ItemStack \<Rightarrow> ItemStack \<Rightarrow> bool" where
  "compareDynamicProperties item1 item2 =
     (if \<not> arraysEqual (getDynamicPropertyIds item1) (getDynamicPropertyIds item2) then False
      else list_all
             (\<lambda>property. samePropertyValue (getDynamicProperty item1 property)
                            (getDynamicProperty item2 property))
             (getDynamicPropertyIds item1))"

text \<open>
  \<open>isSameItem\<close>. The host method \<open>item1.isStackableWith(item2)\<close> is the parameter
  \<open>isStackableWith\<close>.
\<close>

definition isSameItem :: "(ItemStack \<Rightarrow> ItemStack \<Rightarrow> bool) \<Rightarrow> ItemStack \<Rightarrow> ItemStack \<Rightarrow> bool" where
  "isSameItem isStackableWith item1 item2 =
     (if typeId item1 \<noteq> typeId item2 then False
      else if nameTag item1 \<noteq> nameTag item2 then False
      else if strictNeq (amount item1) (amount item2) then False
      else if isStackable item1 \<and> isStackableWith item1 item2 then False
      else if differsByContainment (getTags item1) (getTags item2) then False
      else if differsByContainment (getLore item1) (getLore item2) then False
      else if differsByContainment (getCanDestroy item1) (getCanDestroy item2) then False
      else if differsByContainment (getCanPlaceOn item1) (getCanPlaceOn item2) then False
      else if keepOnDeath item1 \<noteq> keepOnDeath item2 then False
      else if lockMode item1 \<noteq> lockMode item2 then False
      else if \<not> compareComponents item1 item2 then False
      else if \<not> compareDynamicProperties item1 item2 then False
      else True)"

section \<open>Auxiliary definitions for the proofs\<close>

text \<open>The values of the symbols of \<open>romanToNumber\<close>, and the sum of those below a bound.\<close>

definition symbolValues :: "int list" where
  "symbolValues = [1, 5, 10, 50, 100, 500, 1000]"

definition sumBelow :: "int \<Rightarrow> int" where
  "sumBelow p = sum_list (filter (\<lambda>v. v < p) symbolValues)"

text \<open>
  A host and two items for the examples: a registry that knows sharpness (maximum 5), a
  compatibility check that accepts every enchantment, a stackability check that refuses
  every pair, a sword that can be enchanted and a stick that cannot.
\<close>

definition sharpnessType :: EnchantmentType where
  "sharpnessType = \<lparr>id_t = ''sharpness'', maxLevel = 5\<rparr>"

definition exampleRegistry :: "string \<Rightarrow> EnchantmentType option" where
  "exampleRegistry = map_of [(''sharpness'', sharpnessType)]"

definition acceptAll :: "ItemEnchantableComponent \<Rightarrow> Enchantment \<Rightarrow> bool" where
  "acceptAll enchantableComponent enchantment = True"


definition alwaysStackable :: "ItemStack \<Rightarrow> ItemStack \<Rightarrow> bool" where
  "alwaysStackable item1 item2 = True"

definition exampleSword :: ItemStack where
  "exampleSword =
     \<lparr>typeId = ''minecraft:diamond_sword'', nameTag = None, amount = Fin 1,
      isStackable = False, getTags = [], getLore = [''first line'', ''second line''],
      getCanDestroy = [], getCanPlaceOn = [], keepOnDeath = False, lockMode = LockNone,
      cooldown = None, durability = Some \<lparr>maxDurability = Fin 1561, damage = Fin 0\<rparr>,
      food = None, enchantable = Some \<lparr>getEnchantments = []\<rparr>, dynamicProperties = []\<rparr>"

definition exampleStick :: ItemStack where
  "exampleStick =
     \<lparr>typeId = ''minecraft:stick'', nameTag = None, amount = Fin 3,
      isStackable = True, getTags = [], getLore = [],
      getCanDestroy = [], getCanPlaceOn = [], keepOnDeath = False, lockMode = LockNone,
      cooldown = None, durability = None, food = None, enchantable = None,
      dynamicProperties = []\<rparr>"

section \<open>Properties of the numeral codec\<close>

lemma keys_eq: "keys = [10, 9, 5, 4, 1]"
  by (simp add: keys_def romanNumerals_def)

lemmas codec_defs =
  convertToRomanNumerals_def keys_eq numeralOf_def romanNumerals_def romanToNumber_def
  symbolValue_def lessThan_num_def plus_num_def minus_num_def Let_def

lemma romanToNumber_convert_upto:
  "\<forall>n \<in> set [1..10]. romanToNumber (convertToRomanNumerals n) = Some n"
  by (simp add: codec_defs)

lemma romanToNumber_convert:
  assumes "1 \<le> n" and "n \<le> 10"
  shows "romanToNumber (convertToRomanNumerals n) = Some n"
proof -
  from assms have "n \<in> set [1..10]"
    by simp
  with romanToNumber_convert_upto show ?thesis
    by blast
qed

text \<open>
  C8: for every integer n from 1 to 10, the numeral of n decodes to an integer whose
  numeral is the numeral of n again:
  convertToRomanNumerals(romanToNumber(convertToRomanNumerals(n))) = convertToRomanNumerals(n).
\<close>

theorem roman_round_trip:
  "1 \<le> n \<Longrightarrow> n \<le> 10 \<Longrightarrow>
   \<exists>m. romanToNumber (convertToRomanNumerals n) = Some m \<and>
       convertToRomanNumerals m = convertToRomanNumerals n"
  by (simp add: romanToNumber_convert)

theorem roman_round_trip_witness:
  "\<exists>m. romanToNumber (convertToRomanNumerals 9) = Some m \<and>
       convertToRomanNumerals m = ''IX''"
  using roman_round_trip [of 9] by (simp add: codec_defs)

lemma digitValue_digitChar_upto:
  "\<forall>d \<in> set [0..<10]. digitValue (digitChar d) = d \<and> isDigit (digitChar d)"
  by (simp add: upt_rec digitValue_def digitChar_def isDigit_def)

lemma digitValue_digitChar:
  assumes "d < 10"
  shows "digitValue (digitChar d) = d" and "isDigit (digitChar d)"
  using assms digitValue_digitChar_upto by auto

lemma digitsValue_snoc: "digitsValue (ds @ [c]) = 10 * digitsValue ds + digitValue c"
  by (simp add: digitsValue_def)

lemma digitsValue_decimal: "digitsValue (decimal n) = n \<and> list_all isDigit (decimal n)"
proof (induction n rule: decimal.induct)
  case (1 n)
  show ?case
  proof (cases "n < 10")
    case True
    then show ?thesis
      by (simp add: digitValue_digitChar digitsValue_def)
  next
    case False
    then have eq: "decimal n = decimal (n div 10) @ [digitChar (n mod 10)]"
      by simp
    from False 1 have "digitsValue (decimal (n div 10)) = n div 10"
      and "list_all isDigit (decimal (n div 10))"
      by simp_all
    then show ?thesis
      unfolding eq digitsValue_snoc
      by (simp add: digitValue_digitChar del: decimal.simps)
  qed
qed

lemma bitLength_le_iff: "bitLength n \<le> k \<longleftrightarrow> n < 2 ^ k"
proof (induction n arbitrary: k rule: bitLength.induct)
  case (1 n)
  show ?case
  proof (cases "n = 0")
    case True
    then show ?thesis by simp
  next
    case False
    show ?thesis
    proof (cases k)
      case 0
      with False show ?thesis by simp
    next
      case (Suc j)
      have "bitLength n \<le> Suc j \<longleftrightarrow> bitLength (n div 2) \<le> j"
        using False by simp
      also have "\<dots> \<longleftrightarrow> n div 2 < 2 ^ j"
        using 1 [OF False] by simp
      also have "\<dots> \<longleftrightarrow> n < 2 ^ Suc j"
        by (simp add: less_mult_imp_div_less div_less_iff_less_mult mult.commute)
      finally show ?thesis
        using Suc by simp
    qed
  qed
qed

lemma roundDouble_exact:
  assumes "n < 2 ^ 53"
  shows "roundDouble n = n"
  using assms by (simp add: roundDouble_def bitLength_le_iff del: bitLength.simps)

lemma roundDouble_large:
  assumes "2 ^ 53 \<le> m"
  shows "2 ^ 53 \<le> roundDouble m"
proof -
  define b where "b = bitLength m"
  define e where "e = b - 53"
  from assms have "\<not> b \<le> 53"
    unfolding b_def bitLength_le_iff by simp
  then have b: "b = 53 + e" and e: "1 \<le> e"
    by (simp_all add: e_def)
  have "\<not> b \<le> 52 + e"
    using b by simp
  then have "2 ^ (52 + e) \<le> m"
    unfolding b_def bitLength_le_iff by simp
  then have "2 ^ 52 * 2 ^ e \<le> m"
    by (simp add: power_add)
  then have q: "2 ^ 52 \<le> m div 2 ^ e"
    by (simp add: less_eq_div_iff_mult_less_eq)
  have "(2::nat) ^ 53 = 2 ^ 52 * 2 ^ 1"
    by simp
  also have "\<dots> \<le> 2 ^ 52 * 2 ^ e"
    using e by (intro mult_le_mono2 power_increasing) simp_all
  also have "\<dots> \<le> (m div 2 ^ e) * 2 ^ e"
    using q by (rule mult_le_mono1)
  also have "\<dots> \<le> roundDouble m"
    using \<open>\<not> b \<le> 53\<close>
    by (simp add: roundDouble_def Let_def b_def [symmetric] e_def [symmetric] del: bitLength.simps)
  finally show ?thesis .
qed

lemma roundDouble_hits_exact:
  assumes "n < 2 ^ 53" and "roundDouble c = n"
  shows "c = n"
proof (cases "c < 2 ^ 53")
  case True
  with assms(2) show ?thesis
    by (simp add: roundDouble_exact)
next
  case False
  then have "2 ^ 53 \<le> roundDouble c"
    by (intro roundDouble_large) simp
  with assms show ?thesis
    by simp
qed

lemma pick_exact:
  assumes "\<And>c. P c \<Longrightarrow> c = n"
  shows "(if P lo \<and> P hi
          then (if a then lo else if b then hi else if c then lo else hi)
          else if P lo then lo else if P hi then hi else n) = n"
proof (cases "P lo")
  case True
  with assms [of lo] have lo: "lo = n"
    by simp
  show ?thesis
  proof (cases "P hi")
    case True
    with assms [of hi] lo show ?thesis
      by simp
  next
    case False
    with \<open>P lo\<close> lo show ?thesis
      by simp
  qed
next
  case False
  show ?thesis
  proof (cases "P hi")
    case True
    with assms [of hi] False show ?thesis
      by simp
  next
    case hi: False
    with False show ?thesis
      by simp
  qed
qed

lemma shortest_exact:
  assumes "n < 2 ^ 53"
  shows "shortest n z = n"
proof (induction z)
  case 0
  then show ?case by simp
next
  case (Suc z)
  have hit: "c = n" if "roundDouble c = n" for c
    using assms that by (rule roundDouble_hits_exact)
  have "shortest n (Suc z) =
      (let lo = (n div 10 ^ Suc z) * 10 ^ Suc z; hi = lo + 10 ^ Suc z
       in if roundDouble lo = n \<and> roundDouble hi = n
          then (if n - lo < hi - n then lo
                else if hi - n < n - lo then hi
                else if even (n div 10 ^ Suc z) then lo else hi)
          else if roundDouble lo = n then lo
          else if roundDouble hi = n then hi
          else n)"
    by (subst shortest.simps) (simp only: Suc nat.simps if_False diff_Suc_1)
  also have "\<dots> = n"
    unfolding Let_def by (rule pick_exact [where P = "\<lambda>c. roundDouble c = n"]) (rule hit)
  finally show ?case .
qed

lemma length_decimal_le:
  assumes "n < 10 ^ k" and "0 < k"
  shows "length (decimal n) \<le> k"
  using assms
proof (induction n arbitrary: k rule: decimal.induct)
  case (1 n)
  show ?case
  proof (cases "n < 10")
    case True
    with 1 show ?thesis by simp
  next
    case False
    with "1.prems" obtain j where k: "k = Suc j" and "0 < j"
      by (cases k; cases "k - 1") auto
    from "1.prems" k have "n div 10 < 10 ^ j"
      by (simp add: div_less_iff_less_mult mult.commute)
    with 1 False \<open>0 < j\<close> have "length (decimal (n div 10)) \<le> j"
      by simp
    with False k show ?thesis by simp
  qed
qed

lemma Number_toString_exact:
  assumes "n < 2 ^ 53"
  shows "Number_toString n = decimal n"
proof (cases "n = 0")
  case True
  then show ?thesis
    by (simp add: Number_toString_def digitChar_def)
next
  case False
  from assms have "n < 10 ^ 16"
    by simp
  then have "length (decimal n) \<le> 16"
    by (rule length_decimal_le) simp
  with False show ?thesis
    by (simp add: Number_toString_def shortest_exact [OF assms] Let_def del: decimal.simps shortest.simps)
qed

lemma toString_exact:
  assumes "0 \<le> n" and "n < 2 ^ 53"
  shows "toString n = decimal (nat n)"
proof -
  from assms have "nat n < 2 ^ 53"
    by (simp add: nat_less_iff)
  then show ?thesis
    using assms(1) by (simp add: toString_def roundDouble_exact Number_toString_exact del: decimal.simps)
qed

text \<open>
  C10, as the claim states it, fails: from \<open>10^21\<close> on \<open>toString\<close> prints exponent
  notation, and above \<open>2^53\<close> it prints the shortest digits that identify the double,
  which need not be the digits of the integer.
\<close>

theorem convertToRomanNumerals_not_decimal:
  "convertToRomanNumerals 1000000000000000000000 = ''1e+21'' \<and>
   convertToRomanNumerals 999999999999999868928 = ''999999999999999900000''"
  by (simp add: convertToRomanNumerals_def toString_def Number_toString_def roundDouble_def
      stripZeros_def digitChar_def Let_def)

text \<open>
  C10, amended: for every integer n greater than 10, convertToRomanNumerals(n) returns
  n.toString(); for every integer n greater than 10 and below \<open>2^53\<close> that is the decimal
  string representation of n unchanged: a string of digits whose value is n.
\<close>

theorem convertToRomanNumerals_above_ten:
  "(10 < n \<longrightarrow> convertToRomanNumerals n = toString n) \<and>
   (10 < n \<and> n < 2 ^ 53 \<longrightarrow>
      convertToRomanNumerals n = decimal (nat n) \<and>
      list_all isDigit (convertToRomanNumerals n) \<and>
      int (digitsValue (convertToRomanNumerals n)) = n)"
  using digitsValue_decimal [of "nat n"] toString_exact [of n]
  by (simp add: convertToRomanNumerals_def del: decimal.simps)

theorem convertToRomanNumerals_above_ten_witness:
  "convertToRomanNumerals 11 = ''11'' \<and> convertToRomanNumerals 255 = ''255''"
proof -
  have "convertToRomanNumerals 11 = decimal (nat 11)"
    using convertToRomanNumerals_above_ten [of 11, THEN conjunct2] by simp
  moreover have "convertToRomanNumerals 255 = decimal (nat 255)"
    using convertToRomanNumerals_above_ten [of 255, THEN conjunct2] by simp
  ultimately show ?thesis
    by (simp add: digitChar_def)
qed

section \<open>Properties of the form field registry\<close>

lemma indexOfFrom_absent: "x \<notin> set xs \<Longrightarrow> indexOfFrom i xs x = - 1"
  by (induction xs arbitrary: i) auto

lemma indexOfFrom_first:
  "k < length xs \<Longrightarrow> xs ! k \<notin> set (take k xs) \<Longrightarrow> indexOfFrom i xs (xs ! k) = i + int k"
proof (induction xs arbitrary: i k)
  case Nil
  then show ?case by simp
next
  case (Cons y ys)
  show ?case
  proof (cases k)
    case 0
    then show ?thesis by simp
  next
    case (Suc j)
    with Cons.prems have "j < length ys" "ys ! j \<notin> set (take j ys)" "y \<noteq> ys ! j"
      by auto
    with Cons.IH [of j "i + 1"] Suc show ?thesis
      by simp
  qed
qed

lemma first_occurrence:
  "x \<in> set xs \<Longrightarrow> \<exists>k<length xs. xs ! k = x \<and> x \<notin> set (take k xs)"
proof (induction xs)
  case Nil
  then show ?case by simp
next
  case (Cons y ys)
  show ?case
  proof (cases "y = x")
    case True
    then have "0 < length (y # ys) \<and> (y # ys) ! 0 = x \<and> x \<notin> set (take 0 (y # ys))"
      by simp
    then show ?thesis by blast
  next
    case False
    with Cons obtain k where "k < length ys" "ys ! k = x" "x \<notin> set (take k ys)"
      by auto
    with False have "Suc k < length (y # ys) \<and> (y # ys) ! Suc k = x \<and> x \<notin> set (take (Suc k) (y # ys))"
      by simp
    then show ?thesis by blast
  qed
qed

lemma addFields_Cons_fst:
  "fst (addFields m (name # names)) = fst (addFields (fst (addField m name)) names)"
  by (simp split: prod.splits)

lemma addFields_Cons_snd:
  "snd (addFields m (name # names)) =
     snd (addField m name) # snd (addFields (fst (addField m name)) names)"
  by (simp split: prod.splits)

lemma addFields_fields: "fields_m (fst (addFields m names)) = fields_m m @ names"
proof (induction names arbitrary: m)
  case Nil
  then show ?case by simp
next
  case (Cons name names)
  show ?case
    unfolding addFields_Cons_fst Cons.IH by (simp add: addField_def)
qed

lemma addFields_indices:
  "snd (addFields m names) = map (\<lambda>j. int (length (fields_m m)) + int j) [0..<length names]"
proof (induction names arbitrary: m)
  case Nil
  then show ?case by simp
next
  case (Cons name names)
  have "[0..<length (name # names)] = 0 # map Suc [0..<length names]"
    by (simp add: upt_conv_Cons map_Suc_upt del: upt_Suc)
  then have "map (\<lambda>j. int (length (fields_m m)) + int j) [0..<length (name # names)] =
        int (length (fields_m m)) # map (\<lambda>j. int (length (fields_m m)) + 1 + int j) [0..<length names]"
    by (simp add: comp_def del: upt_Suc)
  then show ?case
    unfolding addFields_Cons_snd Cons.IH by (simp add: addField_def)
qed

lemma registryOf_fields: "fields_m (registryOf names) = names"
  by (simp add: registryOf_def addFields_fields newFormFieldManager_def)

text \<open>
  C9: registering names on a fresh manager, the k-th call of addField (counting from 0)
  returns k; getFieldIndex of a registered name is the index addField returned when the
  name was first registered, and - 1 for a name that was not registered; getValue is the
  caller's default when the name was not registered, when the response has no values, or
  when the index is not below the number of values, and the response value at the index
  otherwise. Every function is total: nothing throws.
\<close>

theorem field_registry:
  "snd (addFields newFormFieldManager names) = map int [0..<length names] \<and>
   (name \<in> set names \<longrightarrow>
      (\<exists>k<length names. names ! k = name \<and> name \<notin> set (take k names) \<and>
         snd (addFields newFormFieldManager names) ! k = int k \<and>
         getFieldIndex (registryOf names) name = int k)) \<and>
   (name \<notin> set names \<longrightarrow> getFieldIndex (registryOf names) name = - 1) \<and>
   (name \<notin> set names \<or> formValues response = None \<or>
    (\<exists>vs. formValues response = Some vs \<and> int (length vs) \<le> getFieldIndex (registryOf names) name)
      \<longrightarrow> getValue (registryOf names) response name d = d) \<and>
   (\<forall>vs. name \<in> set names \<and> formValues response = Some vs \<and>
         getFieldIndex (registryOf names) name < int (length vs)
      \<longrightarrow> getValue (registryOf names) response name d = vs ! nat (getFieldIndex (registryOf names) name))"
proof -
  let ?m = "registryOf names"
  have idx: "snd (addFields newFormFieldManager names) = map int [0..<length names]"
    by (simp add: addFields_indices newFormFieldManager_def)
  have absent: "getFieldIndex ?m name = - 1" if "name \<notin> set names"
    using that by (simp add: getFieldIndex_def indexOf_def registryOf_fields indexOfFrom_absent)
  have present: "\<exists>k<length names. names ! k = name \<and> name \<notin> set (take k names) \<and>
         snd (addFields newFormFieldManager names) ! k = int k \<and> getFieldIndex ?m name = int k"
    if "name \<in> set names"
  proof -
    from first_occurrence [OF that] obtain k
      where k: "k < length names" "names ! k = name" "name \<notin> set (take k names)"
      by blast
    then have "getFieldIndex ?m name = int k"
      using indexOfFrom_first [of k names 0]
      by (simp add: getFieldIndex_def indexOf_def registryOf_fields)
    moreover from k have "snd (addFields newFormFieldManager names) ! k = int k"
      by (simp add: idx)
    ultimately show ?thesis using k by blast
  qed
  have dflt: "getValue ?m response name d = d"
    if "name \<notin> set names \<or> formValues response = None \<or>
        (\<exists>vs. formValues response = Some vs \<and> int (length vs) \<le> getFieldIndex ?m name)"
    using that absent by (auto simp: getValue_def Let_def split: option.splits)
  have val: "getValue ?m response name d = vs ! nat (getFieldIndex ?m name)"
    if "name \<in> set names" "formValues response = Some vs" "getFieldIndex ?m name < int (length vs)" for vs
    using that present by (auto simp: getValue_def Let_def)
  from idx absent present dflt val show ?thesis
    by blast
qed

theorem field_registry_witness:
  "snd (addFields newFormFieldManager [''a'', ''b'']) = [0, 1] \<and>
   getFieldIndex (registryOf [''a'', ''b'']) ''b'' = 1 \<and>
   getFieldIndex (registryOf [''a'', ''b'']) ''c'' = - 1 \<and>
   getValue (registryOf [''a'', ''b'']) \<lparr>formValues = Some [True, False]\<rparr> ''c'' True = True \<and>
   getValue (registryOf [''a'', ''b'']) \<lparr>formValues = None\<rparr> ''b'' True = True \<and>
   getValue (registryOf [''a'', ''b'']) \<lparr>formValues = Some [False]\<rparr> ''b'' True = True \<and>
   getValue (registryOf [''a'', ''b'']) \<lparr>formValues = Some [True, False]\<rparr> ''b'' True = False"
  using field_registry [of "[''a'', ''b'']" "''b''" "\<lparr>formValues = Some [True, False]\<rparr>" True]
    field_registry [of "[''a'', ''b'']" "''c''" "\<lparr>formValues = Some [True, False]\<rparr>" True]
  by (simp add: registryOf_def newFormFieldManager_def addField_def getFieldIndex_def indexOf_def getValue_def)

lemmas string_defs =
  split_whitespace_def trim_def isWhiteSpace_def whiteSpaceChars_def startsWith_def slice1_def
  isDigit_def

lemmas parseFloat_defs =
  parseFloat_def digitsValue_def digitValue_def scale10_def

lemmas coords_defs =
  parseCoords_def parseCoordinateWithDirection_def isNaN_def isStr_def numberOf_def truthy_def
  degreesToRadians_def Math_PI_def catchMessage_def

section \<open>Properties of the spatial vector\<close>

text \<open>
  C5, as the claim states it, fails: the magnitude of the zero vector is the number 0, and
  \<open>magnitude\<close> has no failing branch at all.
\<close>

theorem magnitude_zero_vector_is_zero:
  "magnitude (Vector3 (Fin 0) (Fin 0) (Fin 0)) = Fin 0"
  by (simp add: magnitude_def)

text \<open>
  C5, amended: divide throws exactly when the scalar is zero, with the message
  "Cannot divide by zero"; normalize of the zero vector throws "Cannot normalize a zero
  vector"; magnitude never throws, and on the zero vector it returns 0.
\<close>

theorem vector3_zero_failures:
  "(isl (divide v scalar) \<longleftrightarrow> scalar = Fin 0) \<and>
   divide v (Fin 0) = Inl (Error ''Cannot divide by zero'') \<and>
   normalize (Vector3 (Fin 0) (Fin 0) (Fin 0)) = Inl (Error ''Cannot normalize a zero vector'') \<and>
   magnitude (Vector3 (Fin 0) (Fin 0) (Fin 0)) = Fin 0"
  by (auto simp: divide_def normalize_def magnitude_def strictNeq_def strictEq_def)

theorem vector3_zero_failures_witness:
  "divide (Vector3 (Fin 2) (Fin 4) (Fin 6)) (Fin 2) = Inr (Vector3 (Fin 1) (Fin 2) (Fin 3)) \<and>
   divide (Vector3 (Fin 2) (Fin 4) (Fin 6)) (Fin 0) = Inl (Error ''Cannot divide by zero'') \<and>
   normalize (Vector3 (Fin 0) (Fin 0) (Fin 0)) = Inl (Error ''Cannot normalize a zero vector'')"
  using vector3_zero_failures [of "Vector3 (Fin 2) (Fin 4) (Fin 6)" "Fin 2"]
    vector3_zero_failures [of "Vector3 (Fin 2) (Fin 4) (Fin 6)" "Fin 0"]
  by (simp add: divide_def strictNeq_def strictEq_def)

section \<open>Properties of the coordinate parser\<close>

lemma num_add_zero: "num_add a (Fin 0) = a"
  by (cases a) simp_all

lemma degreesToRadians_zero: "degreesToRadians (Fin 0) = Fin 0"
  by (simp add: degreesToRadians_def Math_PI_def)

lemma parseFloat_empty: "parseFloat [] = NaN"
  by (simp add: parseFloat_defs string_defs)

lemma parseFloat_one: "parseFloat ''1'' = Fin 1"
  by (simp add: parseFloat_defs string_defs)

lemma parseFloat_minus_one: "parseFloat ''-1'' = Fin (- 1)"
  by (simp add: parseFloat_defs string_defs)

lemma split_relative: "split_whitespace (trim ''~ ~-1 ~'') = [''~'', ''~-1'', ''~'']"
  by (simp add: string_defs)

lemma split_local: "split_whitespace (trim ''^ ^ ^1'') = [''^'', ''^'', ''^1'']"
  by (simp add: string_defs)

lemma relative_example:
  assumes "location p = Inr (Vector3 (Fin 10) (Fin 64) (Fin 10))"
  shows "parseCoords p ''~ ~-1 ~'' = Inr (Vector3 (Fin 10) (Fin 63) (Fin 10))"
  unfolding parseCoords_def split_relative
  using assms
  by (simp add: parseCoordinateWithDirection_def startsWith_def slice1_def parseFloat_empty
      parseFloat_minus_one isNaN_def isStr_def numberOf_def)

lemma local_example:
  assumes "location p = Inr origin" and "getRotation p = Inr rotation" and "y2 rotation = Fin 0"
  shows "parseCoords p ''^ ^ ^1'' = Inr (add origin (Vector3 (Fin 0) (Fin 0) (Fin 1)))"
  unfolding parseCoords_def split_local
  using assms
  by (cases origin)
    (simp add: parseCoordinateWithDirection_def startsWith_def slice1_def parseFloat_empty
      parseFloat_one isNaN_def isStr_def numberOf_def truthy_def degreesToRadians_zero
      num_add_zero add_def)

lemma mix_rejected:
  assumes "split_whitespace (trim input) = [c0, c1, c2]"
    and "location p = Inr origin"
    and "list_ex (\<lambda>c. startsWith c ''~'') [c0, c1, c2]"
    and "list_ex (\<lambda>c. startsWith c ''^'') [c0, c1, c2]"
  shows "parseCoords p input = Inl ''Error: Cannot mix relative (~) and local (^) coordinates.''"
  using assms by (simp add: parseCoords_def)

text \<open>
  C7: from the origin (10,64,10) the input "~ ~-1 ~" gives (10,63,10); with yaw 0 the
  input "^ ^ ^1" gives the origin plus (0,0,1); and a three-token input with a token that
  starts with ~ and a token that starts with ^ is rejected with the mix error, whatever
  the numeric parts of its tokens are.
\<close>

theorem parseCoords_examples:
  "(location p = Inr (Vector3 (Fin 10) (Fin 64) (Fin 10)) \<longrightarrow>
      parseCoords p ''~ ~-1 ~'' = Inr (Vector3 (Fin 10) (Fin 63) (Fin 10))) \<and>
   (location p = Inr origin \<and> getRotation p = Inr rotation \<and> y2 rotation = Fin 0 \<longrightarrow>
      parseCoords p ''^ ^ ^1'' = Inr (add origin (Vector3 (Fin 0) (Fin 0) (Fin 1)))) \<and>
   (location p = Inr origin \<and> split_whitespace (trim input) = [c0, c1, c2] \<and>
    list_ex (\<lambda>c. startsWith c ''~'') [c0, c1, c2] \<and>
    list_ex (\<lambda>c. startsWith c ''^'') [c0, c1, c2] \<longrightarrow>
      parseCoords p input = Inl ''Error: Cannot mix relative (~) and local (^) coordinates.'')"
  using relative_example local_example mix_rejected by blast

theorem parseCoords_examples_witness:
  "parseCoords \<lparr>location = Inr (Vector3 (Fin 10) (Fin 64) (Fin 10)),
                 getRotation = Inr (Vector2 (Fin 0) (Fin 0))\<rparr> ''~ ~-1 ~'' =
     Inr (Vector3 (Fin 10) (Fin 63) (Fin 10)) \<and>
   parseCoords \<lparr>location = Inr (Vector3 (Fin 10) (Fin 64) (Fin 10)),
                 getRotation = Inr (Vector2 (Fin 0) (Fin 0))\<rparr> ''^ ^ ^1'' =
     Inr (Vector3 (Fin 10) (Fin 64) (Fin 11)) \<and>
   parseCoords \<lparr>location = Inr (Vector3 (Fin 10) (Fin 64) (Fin 10)),
                 getRotation = Inr (Vector2 (Fin 0) (Fin 0))\<rparr> ''~1 ^1 ~1'' =
     Inl ''Error: Cannot mix relative (~) and local (^) coordinates.''"
  using parseCoords_examples
    [of "\<lparr>location = Inr (Vector3 (Fin 10) (Fin 64) (Fin 10)),
          getRotation = Inr (Vector2 (Fin 0) (Fin 0))\<rparr>"
        "Vector3 (Fin 10) (Fin 64) (Fin 10)" "Vector2 (Fin 0) (Fin 0)"
        "''~1 ^1 ~1''" "''~1''" "''^1''" "''~1''"]
  by (simp add: string_defs add_def)

lemma coordinate_returns:
  assumes "getRotation p = Inr rotation"
  shows "\<exists>c. parseCoordinateWithDirection p token base ax = Inr c"
  using assms by (cases ax) (simp_all add: parseCoordinateWithDirection_def Let_def)

lemma absolute_malformed:
  assumes "\<not> startsWith token ''~''" and "\<not> startsWith token ''^''" and "parseFloat token = NaN"
  shows "parseCoordinateWithDirection p token base ax = Inr (Str ''Error: Invalid coordinate value.'')"
  using assms by (simp add: parseCoordinateWithDirection_def isNaN_def)

lemma relative_malformed:
  assumes "parseFloat t = NaN"
  shows "parseCoordinateWithDirection p (CHR ''~'' # t) base ax =
         parseCoordinateWithDirection p ''~'' base ax"
  using assms
  by (simp add: parseCoordinateWithDirection_def startsWith_def slice1_def isNaN_def parseFloat_empty)

lemma local_malformed:
  assumes "parseFloat t = NaN"
  shows "parseCoordinateWithDirection p (CHR ''^'' # t) base ax =
         parseCoordinateWithDirection p ''^'' base ax"
  using assms
  by (simp add: parseCoordinateWithDirection_def startsWith_def slice1_def truthy_def parseFloat_empty)

lemma malformed_absolute_rejected:
  assumes split: "split_whitespace (trim input) = [c0, c1, c2]"
    and loc: "location p = Inr origin"
    and rot: "getRotation p = Inr rotation"
    and nomix: "\<not> (list_ex (\<lambda>c. startsWith c ''~'') [c0, c1, c2] \<and>
                    list_ex (\<lambda>c. startsWith c ''^'') [c0, c1, c2])"
    and bad: "list_ex (\<lambda>c. \<not> startsWith c ''~'' \<and> \<not> startsWith c ''^'' \<and> parseFloat c = NaN)
                [c0, c1, c2]"
  shows "parseCoords p input = Inl ''Error: One or more coordinates could not be parsed.''"
proof -
  obtain x where x: "parseCoordinateWithDirection p c0 (x3 origin) AxisX = Inr x"
    using coordinate_returns [OF rot] by blast
  obtain y where y: "parseCoordinateWithDirection p c1 (y3 origin) AxisY = Inr y"
    using coordinate_returns [OF rot] by blast
  obtain z where z: "parseCoordinateWithDirection p c2 (z3 origin) AxisZ = Inr z"
    using coordinate_returns [OF rot] by blast
  from bad have "isStr x \<or> isStr y \<or> isStr z"
    using x y z absolute_malformed [of c0 p "x3 origin" AxisX]
      absolute_malformed [of c1 p "y3 origin" AxisY] absolute_malformed [of c2 p "z3 origin" AxisZ]
    by (auto simp: isStr_def)
  with split loc nomix x y z show ?thesis
    by (simp add: parseCoords_def)
qed

text \<open>
  C4, as the claim states it, fails: a token that starts with ~ and whose numeric part is
  not a number is read as the bare marker, and a vector is returned.
\<close>

theorem parseCoords_malformed_relative_accepted:
  "parseCoords \<lparr>location = Inr (Vector3 (Fin 10) (Fin 64) (Fin 10)),
                 getRotation = Inr (Vector2 (Fin 0) (Fin 0))\<rparr> ''~abc 1 2'' =
     Inr (Vector3 (Fin 10) (Fin 1) (Fin 2))"
  by (simp add: coords_defs parseFloat_defs string_defs)

text \<open>
  C4, amended: for a player whose location and rotation can be read and a three-token
  input that does not mix ~ and ^ tokens, if a token that starts with neither ~ nor ^
  cannot be parsed as a number, parseCoords returns the error "Error: One or more
  coordinates could not be parsed." and no vector. A token that starts with ~ or ^ and
  whose numeric part cannot be parsed is not an error: it is read as the bare marker.
\<close>

theorem parseCoords_malformed:
  "(split_whitespace (trim input) = [c0, c1, c2] \<and> location p = Inr origin \<and>
    getRotation p = Inr rotation \<and>
    \<not> (list_ex (\<lambda>c. startsWith c ''~'') [c0, c1, c2] \<and>
       list_ex (\<lambda>c. startsWith c ''^'') [c0, c1, c2]) \<and>
    list_ex (\<lambda>c. \<not> startsWith c ''~'' \<and> \<not> startsWith c ''^'' \<and> parseFloat c = NaN)
      [c0, c1, c2] \<longrightarrow>
      parseCoords p input = Inl ''Error: One or more coordinates could not be parsed.'') \<and>
   (parseFloat t = NaN \<longrightarrow>
      parseCoordinateWithDirection p (CHR ''~'' # t) base ax =
        parseCoordinateWithDirection p ''~'' base ax \<and>
      parseCoordinateWithDirection p (CHR ''^'' # t) base ax =
        parseCoordinateWithDirection p ''^'' base ax)"
  using malformed_absolute_rejected relative_malformed local_malformed by blast

theorem parseCoords_malformed_witness:
  "parseCoords \<lparr>location = Inr (Vector3 (Fin 10) (Fin 64) (Fin 10)),
                 getRotation = Inr (Vector2 (Fin 0) (Fin 0))\<rparr> ''1 abc ~'' =
     Inl ''Error: One or more coordinates could not be parsed.'' \<and>
   parseCoordinateWithDirection \<lparr>location = Inr (Vector3 (Fin 10) (Fin 64) (Fin 10)),
                 getRotation = Inr (Vector2 (Fin 0) (Fin 0))\<rparr> ''~abc'' (Fin 10) AxisX =
     Inr (Num (Fin 10))"
  using parseCoords_malformed
    [of "''1 abc ~''" "''1''" "''abc''" "''~''"
        "\<lparr>location = Inr (Vector3 (Fin 10) (Fin 64) (Fin 10)),
          getRotation = Inr (Vector2 (Fin 0) (Fin 0))\<rparr>"
        "Vector3 (Fin 10) (Fin 64) (Fin 10)" "Vector2 (Fin 0) (Fin 0)" "''abc''" "Fin 10" AxisX]
  by (simp add: string_defs parseFloat_defs parseCoordinateWithDirection_def isNaN_def)

section \<open>Properties of the item equality comparator\<close>









text \<open>
  C2: when the first item is stackable and the host reports it stackable with the second,
  isSameItem returns false whatever the other fields are; in particular isSameItem(a, a)
  is false for a stackable item a that the host reports stackable with itself.
\<close>

theorem isSameItem_stackable_false:
  "(isStackable item1 \<and> isStackableWith item1 item2 \<longrightarrow>
      \<not> isSameItem isStackableWith item1 item2) \<and>
   (isStackable item1 \<and> isStackableWith item1 item1 \<longrightarrow>
      \<not> isSameItem isStackableWith item1 item1)"
  by (simp add: isSameItem_def)

theorem isSameItem_stackable_false_witness:
  "\<not> isSameItem alwaysStackable exampleStick exampleStick"
  using isSameItem_stackable_false [of exampleStick alwaysStackable exampleStick]
  by (simp add: exampleStick_def alwaysStackable_def)

section \<open>Properties of the enchantment string parser\<close>

lemmas enchant_defs =
  parseEnchantments_def enchantmentEntries_def split_comma_def parseEntry_def
  enchantmentPattern_exec_def matchRest_def isWordChar_def toLowerCase_def replaceSpaces_def
  greaterThan_num_def

lemma parseEntry_validated:
  assumes "parseEntry g c item ec entry = Inr d"
  shows "c ec d \<and> \<not> greaterThan_num (level d) (Some (maxLevel (etype d)))"
  using assms
  by (auto simp: parseEntry_def Let_def split: option.splits prod.splits if_splits)

lemma parseEntries_outcome:
  "(\<exists>ds. parseEntries g c item ec entries acc = \<lparr>enchantments = Some (acc @ ds), error = None\<rparr> \<and>
         map (parseEntry g c item ec) entries = map Inr ds) \<or>
   (\<exists>k message. k < length entries \<and>
         parseEntries g c item ec entries acc = \<lparr>enchantments = None, error = Some message\<rparr> \<and>
         parseEntry g c item ec (entries ! k) = Inl message \<and>
         (\<forall>j<k. \<not> isl (parseEntry g c item ec (entries ! j))))"
proof (induction entries arbitrary: acc)
  case Nil
  then show ?case by simp
next
  case (Cons entry entries)
  show ?case
  proof (cases "parseEntry g c item ec entry")
    case (Inl message)
    then have "0 < length (entry # entries) \<and>
         parseEntries g c item ec (entry # entries) acc = \<lparr>enchantments = None, error = Some message\<rparr> \<and>
         parseEntry g c item ec ((entry # entries) ! 0) = Inl message \<and>
         (\<forall>j<0. \<not> isl (parseEntry g c item ec ((entry # entries) ! j)))"
      by simp
    then show ?thesis by blast
  next
    case (Inr d)
    from Cons.IH [of "acc @ [d]"] show ?thesis
    proof
      assume "\<exists>ds. parseEntries g c item ec entries (acc @ [d]) =
                \<lparr>enchantments = Some ((acc @ [d]) @ ds), error = None\<rparr> \<and>
                map (parseEntry g c item ec) entries = map Inr ds"
      then obtain ds where "parseEntries g c item ec entries (acc @ [d]) =
                \<lparr>enchantments = Some ((acc @ [d]) @ ds), error = None\<rparr>"
          and "map (parseEntry g c item ec) entries = map Inr ds"
        by blast
      with Inr have "parseEntries g c item ec (entry # entries) acc =
                \<lparr>enchantments = Some (acc @ (d # ds)), error = None\<rparr> \<and>
                map (parseEntry g c item ec) (entry # entries) = map Inr (d # ds)"
        by simp
      then show ?thesis by blast
    next
      assume "\<exists>k message. k < length entries \<and>
         parseEntries g c item ec entries (acc @ [d]) = \<lparr>enchantments = None, error = Some message\<rparr> \<and>
         parseEntry g c item ec (entries ! k) = Inl message \<and>
         (\<forall>j<k. \<not> isl (parseEntry g c item ec (entries ! j)))"
      then obtain k message where k: "k < length entries"
          and r: "parseEntries g c item ec entries (acc @ [d]) = \<lparr>enchantments = None, error = Some message\<rparr>"
          and m: "parseEntry g c item ec (entries ! k) = Inl message"
          and before: "\<forall>j<k. \<not> isl (parseEntry g c item ec (entries ! j))"
        by blast
      have "\<forall>j<Suc k. \<not> isl (parseEntry g c item ec ((entry # entries) ! j))"
      proof (intro allI impI)
        fix j assume "j < Suc k"
        then show "\<not> isl (parseEntry g c item ec ((entry # entries) ! j))"
          using Inr before by (cases j) simp_all
      qed
      with k r m Inr have "Suc k < length (entry # entries) \<and>
         parseEntries g c item ec (entry # entries) acc = \<lparr>enchantments = None, error = Some message\<rparr> \<and>
         parseEntry g c item ec ((entry # entries) ! Suc k) = Inl message \<and>
         (\<forall>j<Suc k. \<not> isl (parseEntry g c item ec ((entry # entries) ! j)))"
        by simp
      then show ?thesis by blast
    qed
  qed
qed

lemma map_Inr_validated:
  assumes "map (parseEntry g c item ec) entries = map Inr ds"
  shows "list_all (\<lambda>d. c ec d \<and> \<not> greaterThan_num (level d) (Some (maxLevel (etype d)))) ds"
proof -
  have "c ec d \<and> \<not> greaterThan_num (level d) (Some (maxLevel (etype d)))" if "d \<in> set ds" for d
  proof -
    from that have "Inr d \<in> set (map (parseEntry g c item ec) entries)"
      unfolding assms by simp
    then obtain entry where "parseEntry g c item ec entry = Inr d"
      by auto
    then show ?thesis by (rule parseEntry_validated)
  qed
  then show ?thesis by (simp add: list_all_iff)
qed

text \<open>
  C6, as the claim states it, fails: for an item that cannot be enchanted the error is
  the item's, although the single entry of the input passes every check of the loop.
\<close>

theorem parseEnchantments_item_error_names_no_entry:
  "parseEnchantments exampleRegistry acceptAll exampleStick ''sharpness'' =
     \<lparr>enchantments = None, error = Some ''This item cannot be enchanted.''\<rparr> \<and>
   parseEntry exampleRegistry acceptAll exampleStick \<lparr>getEnchantments = []\<rparr> ''sharpness'' =
     Inr \<lparr>etype = sharpnessType, level = Some 1\<rparr>"
  by (simp add: enchant_defs string_defs exampleStick_def exampleRegistry_def acceptAll_def
      sharpnessType_def)

text \<open>
  C6, amended: for every item and input string, parseEnchantments returns exactly one of
  a list and an error. When the item has no enchantable component the error is "This
  item cannot be enchanted." and no entry is read. Otherwise the result is either the
  list holding, in input order, the validated descriptor of every comma-separated entry,
  or the error message of the first entry that fails, and then no list at all.
\<close>

theorem parseEnchantments_list_or_first_error:
  "(enchantable item = None \<longrightarrow>
      parseEnchantments g c item s =
        \<lparr>enchantments = None, error = Some ''This item cannot be enchanted.''\<rparr>) \<and>
   (\<forall>ec. enchantable item = Some ec \<longrightarrow>
      (\<exists>ds. parseEnchantments g c item s = \<lparr>enchantments = Some ds, error = None\<rparr> \<and>
            map (parseEntry g c item ec) (enchantmentEntries s) = map Inr ds \<and>
            list_all (\<lambda>d. c ec d \<and> \<not> greaterThan_num (level d) (Some (maxLevel (etype d)))) ds) \<or>
      (\<exists>k message. k < length (enchantmentEntries s) \<and>
            parseEnchantments g c item s = \<lparr>enchantments = None, error = Some message\<rparr> \<and>
            parseEntry g c item ec (enchantmentEntries s ! k) = Inl message \<and>
            (\<forall>j<k. \<not> isl (parseEntry g c item ec (enchantmentEntries s ! j))))) \<and>
   (enchantments (parseEnchantments g c item s) = None) \<noteq>
     (error (parseEnchantments g c item s) = None)"
proof -
  have none: "parseEnchantments g c item s =
        \<lparr>enchantments = None, error = Some ''This item cannot be enchanted.''\<rparr>"
    if "enchantable item = None"
    using that by (simp add: parseEnchantments_def)
  have some: "(\<exists>ds. parseEnchantments g c item s = \<lparr>enchantments = Some ds, error = None\<rparr> \<and>
            map (parseEntry g c item ec) (enchantmentEntries s) = map Inr ds \<and>
            list_all (\<lambda>d. c ec d \<and> \<not> greaterThan_num (level d) (Some (maxLevel (etype d)))) ds) \<or>
      (\<exists>k message. k < length (enchantmentEntries s) \<and>
            parseEnchantments g c item s = \<lparr>enchantments = None, error = Some message\<rparr> \<and>
            parseEntry g c item ec (enchantmentEntries s ! k) = Inl message \<and>
            (\<forall>j<k. \<not> isl (parseEntry g c item ec (enchantmentEntries s ! j))))"
    if "enchantable item = Some ec" for ec
    using that parseEntries_outcome [of g c item ec "enchantmentEntries s" "[]"]
      map_Inr_validated [of g c item ec "enchantmentEntries s"]
    by (auto simp: parseEnchantments_def)
  have one: "(enchantments (parseEnchantments g c item s) = None) \<noteq>
     (error (parseEnchantments g c item s) = None)"
  proof (cases "enchantable item")
    case None
    with none show ?thesis by simp
  next
    case (Some ec)
    with some [OF Some] show ?thesis by auto
  qed
  from none some one show ?thesis by blast
qed

theorem parseEnchantments_list_or_first_error_witness:
  "parseEnchantments exampleRegistry acceptAll exampleSword ''Sharpness V, sharpness'' =
     \<lparr>enchantments = Some [\<lparr>etype = sharpnessType, level = Some 5\<rparr>,
                            \<lparr>etype = sharpnessType, level = Some 1\<rparr>], error = None\<rparr> \<and>
   parseEnchantments exampleRegistry acceptAll exampleSword ''sharpness, Sharpness VI, mending'' =
     \<lparr>enchantments = None,
      error = Some ''The enchantment level for Sharpness is too high. Maximum allowed is V.''\<rparr> \<and>
   parseEnchantments exampleRegistry acceptAll exampleStick ''sharpness'' =
     \<lparr>enchantments = None, error = Some ''This item cannot be enchanted.''\<rparr>"
  using parseEnchantments_list_or_first_error
      [of exampleStick exampleRegistry acceptAll "''sharpness''"]
    parseEnchantments_list_or_first_error
      [of exampleSword exampleRegistry acceptAll "''Sharpness V, sharpness''"]
  by (simp add: enchant_defs string_defs codec_defs exampleSword_def exampleStick_def exampleRegistry_def
      acceptAll_def sharpnessType_def)

lemma symbolValue_in_values:
  assumes "symbolValue c = Some v"
  shows "v \<in> set symbolValues"
  using assms by (auto simp: symbolValue_def symbolValues_def split: if_splits)

lemma sumBelow_step:
  assumes "v \<in> set symbolValues" and "p \<in> set symbolValues" and "sumBelow p < n"
  shows "(if v < p then sumBelow v < n - v else sumBelow v < n + v)"
  using assms by (auto simp: symbolValues_def sumBelow_def)

lemma sumBelow_first:
  assumes "v \<in> set symbolValues"
  shows "sumBelow v < v"
  using assms by (auto simp: symbolValues_def sumBelow_def)

lemma roman_loop_invariant:
  assumes "roman \<noteq> []" and "list_all (\<lambda>c. symbolValue c \<noteq> None) roman"
  shows "\<exists>n p. foldl romanStep (Some 0, Some 0) (rev roman) = (Some n, Some p) \<and>
               p \<in> set symbolValues \<and> sumBelow p < n"
  using assms
proof (induction roman)
  case Nil
  then show ?case by simp
next
  case (Cons c cs)
  from Cons.prems obtain v where v: "symbolValue c = Some v"
    by auto
  then have vin: "v \<in> set symbolValues"
    by (rule symbolValue_in_values)
  show ?case
  proof (cases "cs = []")
    case True
    from vin have "0 < v"
      by (auto simp: symbolValues_def)
    with v True have "foldl romanStep (Some 0, Some 0) (rev (c # cs)) = (Some v, Some v)"
      by (simp add: lessThan_num_def plus_num_def Let_def)
    with vin sumBelow_first [OF vin] show ?thesis
      by blast
  next
    case False
    with Cons obtain n p where st: "foldl romanStep (Some 0, Some 0) (rev cs) = (Some n, Some p)"
        and pin: "p \<in> set symbolValues" and inv: "sumBelow p < n"
      by auto
    from st v have "foldl romanStep (Some 0, Some 0) (rev (c # cs)) =
        (Some (if v < p then n - v else n + v), Some v)"
      by (simp add: lessThan_num_def plus_num_def minus_num_def Let_def)
    moreover from sumBelow_step [OF vin pin inv]
    have "sumBelow v < (if v < p then n - v else n + v)"
      by (simp split: if_splits)
    ultimately show ?thesis
      using vin by blast
  qed
qed

lemma sumBelow_nonneg: "0 \<le> sumBelow p"
  by (simp add: sumBelow_def symbolValues_def)

lemma romanToNumber_positive:
  assumes "roman \<noteq> []" and "list_all (\<lambda>c. symbolValue c \<noteq> None) roman"
  shows "\<exists>n. romanToNumber roman = Some n \<and> 1 \<le> n"
proof -
  from roman_loop_invariant [OF assms] obtain n p
    where "foldl romanStep (Some 0, Some 0) (rev roman) = (Some n, Some p)" and "sumBelow p < n"
    by blast
  with sumBelow_nonneg [of p] show ?thesis
    by (simp add: romanToNumber_def)
qed

lemma romanStep_NaN:
  assumes "fst state = None \<or> symbolValue c = None"
  shows "fst (romanStep state c) = None"
  using assms
  by (cases state)
    (auto simp: plus_num_def minus_num_def lessThan_num_def Let_def split: option.splits)

lemma roman_loop_NaN:
  assumes "num = None \<or> \<not> list_all (\<lambda>c. symbolValue c \<noteq> None) cs"
  shows "fst (foldl romanStep (num, prev) (rev cs)) = None"
  using assms
proof (induction cs)
  case Nil
  then show ?case by simp
next
  case (Cons c cs)
  have "fst (foldl romanStep (num, prev) (rev cs)) = None \<or> symbolValue c = None"
    using Cons by auto
  then show ?case
    by (simp add: romanStep_NaN)
qed

lemma romanToNumber_NaN:
  assumes "\<not> list_all (\<lambda>c. symbolValue c \<noteq> None) roman"
  shows "romanToNumber roman = None"
  using assms by (simp add: romanToNumber_def roman_loop_NaN)

lemma parseEntry_level:
  assumes "parseEntry g c item ec entry = Inr d"
  shows "level d = None \<or> (\<exists>l. level d = Some l \<and> 1 \<le> l \<and> l \<le> maxLevel (etype d))"
proof (cases "level d")
  case None
  then show ?thesis by simp
next
  case (Some l)
  from assms obtain name levelStr where m: "enchantmentPattern_exec entry = Some (name, levelStr)"
      and lv: "level d = (case levelStr of
                          Some l \<Rightarrow> if l \<noteq> [] then romanToNumber l else Some 1
                        | None \<Rightarrow> Some 1)"
    by (auto simp: parseEntry_def Let_def split: option.splits prod.splits if_splits)
  have "1 \<le> l"
  proof (cases "\<exists>t. levelStr = Some t \<and> t \<noteq> []")
    case True
    then obtain t where t: "levelStr = Some t" "t \<noteq> []"
      by blast
    with lv Some have r: "romanToNumber t = Some l"
      by simp
    then have "list_all (\<lambda>c. symbolValue c \<noteq> None) t"
      using romanToNumber_NaN [of t] by auto
    from romanToNumber_positive [OF t(2) this] r show ?thesis
      by simp
  next
    case False
    with lv Some show ?thesis
      by (cases levelStr) (auto split: if_splits)
  qed
  moreover from parseEntry_validated [OF assms] Some have "l \<le> maxLevel (etype d)"
    by (simp add: greaterThan_num_def)
  ultimately show ?thesis
    using Some by simp
qed

lemma parseEnchantments_levels:
  assumes "enchantments (parseEnchantments g c item s) = Some ds" and "d \<in> set ds"
  shows "level d = None \<or> (\<exists>l. level d = Some l \<and> 1 \<le> l \<and> l \<le> maxLevel (etype d))"
proof (cases "enchantable item")
  case None
  with assms show ?thesis
    by (simp add: parseEnchantments_def)
next
  case (Some ec)
  from parseEntries_outcome [of g c item ec "enchantmentEntries s" "[]"] assms(1) Some
  have "map (parseEntry g c item ec) (enchantmentEntries s) = map Inr ds"
    by (auto simp: parseEnchantments_def)
  with assms(2) have "Inr d \<in> set (map (parseEntry g c item ec) (enchantmentEntries s))"
    by simp
  then obtain entry where "parseEntry g c item ec entry = Inr d"
    by auto
  then show ?thesis
    by (rule parseEntry_level)
qed

text \<open>
  C3 at the input "sharpness 5": the level text is not a numeral, romanToNumber gives NaN,
  the test \<open>level > type.maxLevel\<close> is false for NaN, and the descriptor is returned with
  a level that is not an integer of [1, 5].
\<close>

theorem parseEnchantments_returns_NaN_level:
  "parseEnchantments exampleRegistry acceptAll exampleSword ''sharpness 5'' =
     \<lparr>enchantments = Some [\<lparr>etype = sharpnessType, level = None\<rparr>], error = None\<rparr>"
  by (simp add: enchant_defs string_defs codec_defs exampleSword_def exampleRegistry_def acceptAll_def
      sharpnessType_def)

end
